theory Spec2Isabelle
  imports
    Complex_Main
    "HOL-Library.Sublist"
    "HOL-Library.Product_Lexorder"
    "HOL-Library.AList"
begin

section \<open>Media server items (services/plex\_service.py)\<close>

text \<open>
  \<open>PlexItem\<close> is the dataclass of the media server client. Optional fields are
  \<open>option\<close>s; the field \<open>type\<close> of the source is called \<open>item_type\<close> here.
\<close>

record PlexItem =
  rating_key :: string
  title :: string
  year :: "int option"
  item_type :: string
  guid :: "string option"
  thumb :: "string option"
  art :: "string option"
  library_name :: string
  added_at :: "int option"
  edition_title :: "string option"
  guids :: "string list"

text \<open>Python truthiness of an optional string: neither \<open>None\<close> nor empty.\<close>

definition truthy :: "string option \<Rightarrow> bool" where
  "truthy v = (case v of None \<Rightarrow> False | Some s \<Rightarrow> s \<noteq> [])"

definition is_matched :: "PlexItem \<Rightarrow> bool" where
  "is_matched item =
     (if \<not> truthy (guid item) then False
      else \<not> prefix ''local://'' (the (guid item)))"

definition has_poster :: "PlexItem \<Rightarrow> bool" where
  "has_poster item = truthy (thumb item)"

definition has_background :: "PlexItem \<Rightarrow> bool" where
  "has_background item = truthy (art item)"

fun get_external_id_loop :: "string \<Rightarrow> string list \<Rightarrow> string option" where
  "get_external_id_loop pre [] = None"
| "get_external_id_loop pre (g # gs) =
     (if prefix pre g then Some (drop (length pre) g) else get_external_id_loop pre gs)"

definition get_external_id :: "PlexItem \<Rightarrow> string \<Rightarrow> string option" where
  "get_external_id item source = get_external_id_loop (source @ ''://'') (guids item)"

section \<open>Artwork defect detector (services/artwork\_scanner.py)\<close>

datatype IssueType =
  NO_MATCH | NO_POSTER | NO_BACKGROUND | NO_LOGO | PLACEHOLDER_POSTER | PLACEHOLDER_BACKGROUND

record ArtworkIssue =
  issue_type :: IssueType
  plex_rating_key :: string
  plex_guid :: "string option"
  issue_title :: string
  issue_year :: "int option"
  media_type :: string
  issue_library_name :: string
  external_ids :: "(string \<times> string) list"
  details :: "(string \<times> rat) list"

text \<open>
  The scanner object. \<open>aspect_ratio_cache\<close> is the per-instance memo. \<open>http_log\<close> is a
  ghost field: every HTTP GET the scanner's client issues for an image is recorded with
  the image path and what came back, most recent first. An image response is
  \<open>Some (width, height)\<close> when the request succeeded and the bytes decoded, \<open>None\<close> when
  anything in the \<open>try\<close> block raised. Aspect ratios are exact rationals here; the source
  computes \<open>width / height\<close> in double precision, which orders the same way against the
  constants used for every image size that occurs.
\<close>

type_synonym image_response = "(nat \<times> nat) option"

text \<open>The network: the response to the \<open>n\<close>-th GET of the scanner, for the given path.\<close>

type_synonym http = "nat \<Rightarrow> string \<Rightarrow> image_response"

record ArtworkScanner =
  check_posters :: bool
  check_backgrounds :: bool
  check_logos :: bool
  check_unmatched :: bool
  check_placeholders :: bool
  aspect_ratio_cache :: "string \<rightharpoonup> rat"
  http_log :: "(string \<times> image_response) list"

definition ArtworkScanner_init :: "bool \<Rightarrow> bool \<Rightarrow> bool \<Rightarrow> bool \<Rightarrow> bool \<Rightarrow> ArtworkScanner" where
  "ArtworkScanner_init cp cb cl cu cph =
     \<lparr>check_posters = cp, check_backgrounds = cb, check_logos = cl, check_unmatched = cu,
      check_placeholders = cph, aspect_ratio_cache = Map.empty, http_log = []\<rparr>"

definition POSTER_ASPECT_RATIO :: rat where
  "POSTER_ASPECT_RATIO = 667 / 1000"

definition ASPECT_RATIO_TOLERANCE :: rat where
  "ASPECT_RATIO_TOLERANCE = 15 / 100"

definition ext_id_entry :: "PlexItem \<Rightarrow> string \<Rightarrow> (string \<times> string) list" where
  "ext_id_entry item source =
     (if truthy (get_external_id item source) then [(source, the (get_external_id item source))]
      else [])"

definition create_issue :: "PlexItem \<Rightarrow> IssueType \<Rightarrow> (string \<times> rat) list \<Rightarrow> ArtworkIssue" where
  "create_issue item t dets =
     \<lparr>issue_type = t,
      plex_rating_key = rating_key item,
      plex_guid = guid item,
      issue_title = title item,
      issue_year = year item,
      media_type = item_type item,
      issue_library_name = library_name item,
      external_ids = ext_id_entry item ''tmdb'' @ ext_id_entry item ''imdb'' @ ext_id_entry item ''tvdb'',
      details = dets\<rparr>"

definition get_image_aspect_ratio ::
  "http \<Rightarrow> ArtworkScanner \<Rightarrow> string \<Rightarrow> rat option \<times> ArtworkScanner" where
  "get_image_aspect_ratio net s image_path =
     (case aspect_ratio_cache s image_path of
        Some r \<Rightarrow> (Some r, s)
      | None \<Rightarrow>
          (let response = net (length (http_log s)) image_path;
               s' = s\<lparr>http_log := (image_path, response) # http_log s\<rparr>
           in case response of
                None \<Rightarrow> (None, s')
              | Some (width, height) \<Rightarrow>
                  if height = 0 then (None, s')
                  else
                    (let ratio = of_nat width / of_nat height
                     in (Some ratio,
                         s'\<lparr>aspect_ratio_cache := (aspect_ratio_cache s')(image_path \<mapsto> ratio)\<rparr>))))"

definition check_placeholder_poster :: "http \<Rightarrow> ArtworkScanner \<Rightarrow> PlexItem \<Rightarrow> bool \<times> ArtworkScanner" where
  "check_placeholder_poster net s item =
     (if \<not> truthy (thumb item) then (False, s)
      else
        (case get_image_aspect_ratio net s (the (thumb item)) of
           (None, s') \<Rightarrow> (False, s')
         | (Some ratio, s') \<Rightarrow>
             (if ratio > 1 then (True, s')
              else
                (let min_valid = POSTER_ASPECT_RATIO * (1 - ASPECT_RATIO_TOLERANCE);
                     max_valid = POSTER_ASPECT_RATIO * (1 + ASPECT_RATIO_TOLERANCE)
                 in if min_valid \<le> ratio \<and> ratio \<le> max_valid then (False, s')
                    else if ratio > 9 / 10 \<or> ratio < 4 / 10 then (True, s')
                    else (False, s')))))"

definition check_placeholder_background ::
  "http \<Rightarrow> ArtworkScanner \<Rightarrow> PlexItem \<Rightarrow> bool \<times> ArtworkScanner" where
  "check_placeholder_background net s item =
     (if \<not> truthy (art item) then (False, s)
      else
        (case get_image_aspect_ratio net s (the (art item)) of
           (None, s') \<Rightarrow> (False, s')
         | (Some ratio, s') \<Rightarrow>
             (if ratio < 1 then (True, s')
              else if ratio < 12 / 10 then (True, s')
              else (False, s'))))"

text \<open>\<open>self._aspect_ratio_cache.get(path, 0)\<close>\<close>

definition cache_get0 :: "ArtworkScanner \<Rightarrow> string option \<Rightarrow> rat" where
  "cache_get0 s p =
     (case p of None \<Rightarrow> 0
      | Some q \<Rightarrow> (case aspect_ratio_cache s q of None \<Rightarrow> 0 | Some r \<Rightarrow> r))"

definition poster_rule ::
  "http \<Rightarrow> PlexItem \<Rightarrow> ArtworkIssue list \<times> ArtworkScanner \<Rightarrow> ArtworkIssue list \<times> ArtworkScanner" where
  "poster_rule net item st =
     (case st of (issues, s) \<Rightarrow>
        if check_placeholders s \<and> has_poster item then
          (case check_placeholder_poster net s item of
             (is_placeholder, s') \<Rightarrow>
               if is_placeholder then
                 (issues @ [create_issue item PLACEHOLDER_POSTER
                    [(''detected_aspect_ratio'', cache_get0 s' (thumb item))]], s')
               else (issues, s'))
        else (issues, s))"

definition background_rule ::
  "http \<Rightarrow> PlexItem \<Rightarrow> ArtworkIssue list \<times> ArtworkScanner \<Rightarrow> ArtworkIssue list \<times> ArtworkScanner" where
  "background_rule net item st =
     (case st of (issues, s) \<Rightarrow>
        if check_placeholders s \<and> has_background item then
          (case check_placeholder_background net s item of
             (is_placeholder, s') \<Rightarrow>
               if is_placeholder then
                 (issues @ [create_issue item PLACEHOLDER_BACKGROUND
                    [(''detected_aspect_ratio'', cache_get0 s' (art item))]], s')
               else (issues, s'))
        else (issues, s))"

definition missing_rules :: "ArtworkScanner \<Rightarrow> PlexItem \<Rightarrow> ArtworkIssue list" where
  "missing_rules s item =
     (if check_posters s \<and> \<not> has_poster item then [create_issue item NO_POSTER []] else []) @
     (if check_backgrounds s \<and> \<not> has_background item then [create_issue item NO_BACKGROUND []] else [])"

definition scan_item :: "http \<Rightarrow> ArtworkScanner \<Rightarrow> PlexItem \<Rightarrow> ArtworkIssue list \<times> ArtworkScanner" where
  "scan_item net s item =
     (if check_unmatched s \<and> \<not> is_matched item then ([create_issue item NO_MATCH []], s)
      else background_rule net item (poster_rule net item (missing_rules s item, s)))"

text \<open>A sequence of \<open>scan_item\<close> calls on one scanner instance.\<close>

fun scan_items :: "http \<Rightarrow> ArtworkScanner \<Rightarrow> PlexItem list \<Rightarrow> ArtworkScanner" where
  "scan_items net s [] = s"
| "scan_items net s (item # items) = scan_items net (snd (scan_item net s item)) items"

definition emitted :: "ArtworkIssue list \<Rightarrow> IssueType list" where
  "emitted issues = map issue_type issues"

text \<open>
  A fetch is usable when the image decoded and its height is not zero: only then does
  \<open>get_image_aspect_ratio\<close> compute a ratio.
\<close>

fun usable :: "image_response \<Rightarrow> bool" where
  "usable None = False"
| "usable (Some (w, h)) = (h \<noteq> 0)"

text \<open>The log entries for one image path.\<close>

definition fetches_of :: "string \<Rightarrow> ArtworkScanner \<Rightarrow> (string \<times> image_response) list" where
  "fetches_of p s = filter (\<lambda>e. fst e = p) (http_log s)"

text \<open>
  The memo invariant: every usable fetch in the log is in the memo with its ratio, and no
  path is fetched again after a usable fetch of it (the log is most recent first, so
  \<open>later\<close> holds the fetches made after the entry that follows it).
\<close>

definition memo_inv :: "ArtworkScanner \<Rightarrow> bool" where
  "memo_inv s \<longleftrightarrow>
     (\<forall>p w h. (p, Some (w, h)) \<in> set (http_log s) \<and> h \<noteq> 0 \<longrightarrow>
        aspect_ratio_cache s p = Some (of_nat w / of_nat h)) \<and>
     (\<forall>later p r earlier. http_log s = later @ (p, r) # earlier \<and> usable r \<longrightarrow>
        p \<notin> fst ` set later)"

subsection \<open>Concrete inputs for the detector\<close>

definition poster_item :: PlexItem where
  "poster_item =
     \<lparr>rating_key = ''1'', title = ''Movie'', year = None, item_type = ''movie'',
      guid = Some ''plex://movie/1'', thumb = Some ''/library/metadata/1/thumb'',
      art = None, library_name = ''Movies'', added_at = None, edition_title = None,
      guids = []\<rparr>"

definition unmatched_item :: PlexItem where
  "unmatched_item =
     \<lparr>rating_key = ''2'', title = ''Home video'', year = None, item_type = ''movie'',
      guid = Some ''local://123'', thumb = None, art = None, library_name = ''Movies'',
      added_at = None, edition_title = None, guids = []\<rparr>"

definition default_scanner :: ArtworkScanner where
  "default_scanner = ArtworkScanner_init True True True True True"

definition landscape_net :: http where
  "landscape_net = (\<lambda>n p. Some (1920, 1080))"

definition portrait_net :: http where
  "portrait_net = (\<lambda>n p. Some (1000, 1500))"

definition failing_net :: http where
  "failing_net = (\<lambda>n p. None)"

section \<open>Artwork suggestions (models/schemas.py, services/providers/base.py)\<close>

datatype ArtworkType = POSTER | BACKGROUND | LOGO

datatype Provider = FANART | MEDIUX | TMDB | TVDB | PLEX

text \<open>The string value of the \<open>Provider\<close> enum (\<open>item.source.value\<close>).\<close>

fun Provider_value :: "Provider \<Rightarrow> string" where
  "Provider_value FANART = ''fanart''"
| "Provider_value MEDIUX = ''mediux''"
| "Provider_value TMDB = ''tmdb''"
| "Provider_value TVDB = ''tvdb''"
| "Provider_value PLEX = ''plex''"

record ArtworkResult =
  source :: Provider
  artwork_type :: ArtworkType
  image_url :: string
  thumbnail_url :: "string option"
  language :: "string option"
  score :: int
  set_name :: "string option"
  creator_name :: "string option"

section \<open>TMDB provider: response parsing (services/providers/tmdb.py)\<close>










section \<open>Provider aggregator (services/artwork\_service.py)\<close>

text \<open>
  \<open>{name: i for i, name in enumerate(priority_list_str)}\<close>: a dict comprehension, so a
  name that occurs more than once keeps the index of its last occurrence.
\<close>

definition priority_map :: "string list \<Rightarrow> (string \<rightharpoonup> nat)" where
  "priority_map priority_list_str =
     fold (\<lambda>(i, name) m. m(name \<mapsto> i)) (enumerate 0 priority_list_str) Map.empty"

text \<open>
  The inner function \<open>sort_key\<close> of \<open>get_artwork\<close>:
  \<open>(priority_map.get(item.source.value, 999), -item.score)\<close>. Python compares the tuples
  lexicographically, as the product order on \<open>int \<times> int\<close> does.
\<close>

definition artwork_sort_key :: "(string \<rightharpoonup> nat) \<Rightarrow> ArtworkResult \<Rightarrow> int \<times> int" where
  "artwork_sort_key pm item =
     ((case pm (Provider_value (source item)) of None \<Rightarrow> 999 | Some i \<Rightarrow> int i),
      - score item)"

text \<open>
  What \<open>asyncio.gather(..., return_exceptions=True)\<close> holds for one provider: the
  exception it raised, or the list it returned.
\<close>

datatype provider_outcome = Raised | Returned "ArtworkResult list"

text \<open>
  A provider of \<open>self.providers\<close> (a dict, iterated in insertion order) with the answer it
  gives to this query.
\<close>

record provider_entry =
  provider_enum :: Provider
  is_configured :: bool
  outcome :: provider_outcome

fun all_results_of :: "provider_outcome list \<Rightarrow> ArtworkResult list" where
  "all_results_of [] = []"
| "all_results_of (Raised # results_list) = all_results_of results_list"
| "all_results_of (Returned result # results_list) = result @ all_results_of results_list"

definition get_artwork :: "string list \<Rightarrow> provider_entry list \<Rightarrow> ArtworkResult list" where
  "get_artwork priority_list_str providers =
     (let tasks = filter is_configured providers
      in if tasks = [] then []
         else sort_key (artwork_sort_key (priority_map priority_list_str))
                (all_results_of (map outcome tasks)))"

subsection \<open>Concrete inputs for the aggregator\<close>

definition mk_result :: "Provider \<Rightarrow> int \<Rightarrow> ArtworkResult" where
  "mk_result p sc =
     \<lparr>source = p, artwork_type = POSTER, image_url = ''http://example.com/img.jpg'',
      thumbnail_url = None, language = None, score = sc, set_name = None,
      creator_name = None\<rparr>"

definition two_providers :: "provider_entry list" where
  "two_providers =
     [\<lparr>provider_enum = MEDIUX, is_configured = True, outcome = Returned [mk_result MEDIUX 5]\<rparr>,
      \<lparr>provider_enum = TMDB, is_configured = True, outcome = Returned [mk_result TMDB 1]\<rparr>]"

definition long_priority :: "string list" where
  "long_priority = replicate 1000 ''fanart'' @ [''tmdb'']"

section \<open>Edition modules: resolution (services/edition/modules/base.py, video.py)\<close>

text \<open>
  One entry of the item's \<open>Media\<close> list, with the keys the resolution module reads.
  A key that is absent is \<open>None\<close>; the numbers are JSON integers.
\<close>

record Media =
  bitrate :: "int option"
  videoResolution :: "string option"
  width :: "int option"
  height :: "int option"

text \<open>\<open>int(x.get(key, 0))\<close>\<close>

definition int_or_0 :: "int option \<Rightarrow> int" where
  "int_or_0 v = (case v of None \<Rightarrow> 0 | Some n \<Rightarrow> n)"

text \<open>
  \<open>sorted(media, key=lambda x: int(x.get("bitrate", 0)), reverse=True)[0]\<close>. Python's sort
  is stable also with \<open>reverse=True\<close>, so this is the first entry of largest bitrate: the
  head of the stable sort by negated bitrate. The argument is \<open>metadata.get("Media", [])\<close>.
\<close>

definition get_main_media :: "Media list \<Rightarrow> Media option" where
  "get_main_media media =
     (if media = [] then None
      else Some (hd (sort_key (\<lambda>x. - int_or_0 (bitrate x)) media)))"

definition RESOLUTION_MAP :: "((int \<times> int) \<times> string) list" where
  "RESOLUTION_MAP =
     [((7680, 4320), ''8K''),
      ((3840, 2160), ''4K''),
      ((2560, 1440), ''2K''),
      ((1920, 1080), ''1080p''),
      ((1280, 720), ''720p''),
      ((720, 576), ''576p''),
      ((720, 480), ''480p'')]"

text \<open>
  The loop over \<open>RESOLUTION_MAP.items()\<close> (insertion order) and the final \<open>return "SD"\<close>.
  The products \<open>w * 0.85\<close> are exact rationals here; in double precision each of the
  fourteen products has the same integers above it.
\<close>

fun closest_match :: "((int \<times> int) \<times> string) list \<Rightarrow> int \<Rightarrow> int \<Rightarrow> string" where
  "closest_match [] wd ht = ''SD''"
| "closest_match (((w, h), label) # rest) wd ht =
     (if (of_int wd :: rat) \<ge> of_int w * (85 / 100) \<or> (of_int ht :: rat) \<ge> of_int h * (85 / 100)
      then label
      else closest_match rest wd ht)"

text \<open>\<open>str.upper()\<close> on ASCII text (a \<open>char\<close> is a byte).\<close>

definition upper_char :: "char \<Rightarrow> char" where
  "upper_char c =
     (let n = (of_char c :: nat) in if 97 \<le> n \<and> n \<le> 122 then char_of (n - 32) else c)"

definition upper :: "string \<Rightarrow> string" where
  "upper s = map upper_char s"

text \<open>
  \<open>ResolutionModule.extract\<close>. A main media that is an empty dict has no
  \<open>videoResolution\<close> either, so \<open>not media or not media.get("videoResolution")\<close> is the test
  on \<open>videoResolution\<close> alone.
\<close>

definition resolution_extract :: "Media list \<Rightarrow> string option" where
  "resolution_extract item_metadata =
     (case get_main_media item_metadata of
        None \<Rightarrow> None
      | Some media \<Rightarrow>
          if \<not> truthy (videoResolution media) then None
          else
            (let wd = int_or_0 (width media);
                 ht = int_or_0 (height media)
             in if wd = 0 \<or> ht = 0 then
                  (let res_label = the (videoResolution media)
                   in if res_label = ''4k'' then Some ''4K''
                      else if res_label = ''1080'' then Some ''1080p''
                      else if res_label = ''720'' then Some ''720p''
                      else if res_label = ''sd'' then Some ''SD''
                      else Some (upper res_label))
                else Some (closest_match RESOLUTION_MAP wd ht)))"

subsection \<open>Concrete inputs for the resolution module\<close>

definition uhd_no_label :: Media where
  "uhd_no_label = \<lparr>bitrate = Some 20000, videoResolution = None, width = Some 3840, height = Some 2160\<rparr>"

definition hd_labelled :: Media where
  "hd_labelled = \<lparr>bitrate = Some 8000, videoResolution = Some ''1080'', width = Some 1920, height = Some 1080\<rparr>"

section \<open>Persistent rows and engine state (models/database.py, services/scan\_manager.py)\<close>

datatype error =
  PlexAuthenticationError | PlexConnectionError | ValueError | ZeroDivisionError
  | MultipleResultsFound | ScanAlreadyRunningError

datatype ScanStatus = IDLE | PENDING | RUNNING | PAUSED | COMPLETED | CANCELLED | FAILED

text \<open>The JSON object stored in the \<open>checkpoint\<close> column.\<close>

record checkpoint_json =
  cp_processed :: int
  cp_current_library :: string
  cp_timestamp :: nat

text \<open>A row of the \<open>scans\<close> table (the columns the engine writes).\<close>

record Scan =
  scan_type :: string
  status :: string
  total_items :: int
  processed_items :: int
  issues_found :: int
  editions_updated :: int
  current_library :: "string option"
  checkpoint :: "checkpoint_json option"
  triggered_by :: string
  started_at :: "nat option"
  paused_at :: "nat option"
  completed_at :: "nat option"

text \<open>A row of the \<open>edition_backups\<close> table.\<close>

record EditionBackup =
  backup_rating_key :: string
  backup_title :: string
  original_edition :: "string option"

text \<open>The dict \<open>self._progress\<close>.\<close>

record progress_dict =
  p_processed :: int
  p_total :: int
  p_issues_found :: int
  p_editions_updated :: int
  p_current_library :: "string option"
  p_current_item :: "string option"

text \<open>
  The scan manager singleton together with the database tables it writes and three
  ghost logs: \<open>broadcasts\<close> (the events handed to \<open>_broadcast\<close>, as type and scan id),
  \<open>plex_errors\<close> (every exception a media server request raised, in order) and
  \<open>plex_edition_writes\<close> (the edition titles the media server accepted, as item key and
  string). \<open>clock\<close> is what \<open>datetime.utcnow()\<close> returns. The field \<open>_scan_task\<close> of the
  source is \<open>None\<close> throughout (nothing assigns it but \<open>__init__\<close> and the \<open>finally\<close> of
  \<open>run_scan\<close>, both with \<open>None\<close>), so it has no field here.
\<close>

record system =
  mgr_status :: ScanStatus
  current_scan_id :: "nat option"
  cancel_requested :: bool
  pause_event :: bool
  progress :: progress_dict
  broadcasts :: "(string \<times> nat option) list"
  scans :: "nat \<rightharpoonup> Scan"
  next_scan_id :: nat
  scan_events :: "(nat \<times> string) list"
  issue_rows :: "(nat \<times> ArtworkIssue) list"
  edition_backups :: "EditionBackup list"
  plex_errors :: "error list"
  plex_edition_writes :: "(string \<times> string) list"
  clock :: nat

text \<open>The keys of the scan configuration dict that the engine reads.\<close>

record ScanConfig =
  cfg_scan_type :: string
  cfg_triggered_by :: string
  cfg_libraries :: "string list"
  cfg_checkpoint_interval :: int
  cfg_edition_enabled :: bool
  cfg_check_posters :: bool
  cfg_check_backgrounds :: bool
  cfg_check_logos :: bool
  cfg_check_unmatched :: bool
  cfg_check_placeholders :: bool

text \<open>
  A point at which the scan task is suspended and another task may run: while the
  \<open>n\<close>-th library is being enumerated, or while the item reached after \<open>n\<close> processed
  items is being processed.
\<close>

datatype tick = Enumerating nat | Processing nat

text \<open>
  The environment of one scan: the stored media server configuration, the answers of
  the media server, the image network of the detector, and at which suspension points
  a \<open>cancel_scan\<close> call arrives. \<open>metadata_request\<close> is the request of
  \<open>generate_edition\<close>: an exception, or the string the enabled edition modules compose
  from the returned metadata (\<open>None\<close> when there is no metadata or no module yields a
  part). \<open>item_metadata_request\<close> is the request of \<open>get_item_metadata\<close>: an exception, or
  the first \<open>Metadata\<close> entry as an item (\<open>None\<close> when the list is empty).
\<close>

record world =
  plex_url :: string
  plex_token :: string
  get_libraries :: "error + string list"
  get_all_library_items :: "string \<Rightarrow> error + PlexItem list"
  image_net :: http
  metadata_request :: "string \<Rightarrow> error + string option"
  item_metadata_request :: "string \<Rightarrow> error + PlexItem option"
  set_edition_request :: "string \<Rightarrow> string \<Rightarrow> error + unit"
  cancel_arrives :: "tick \<Rightarrow> bool"

definition ScanManager_init :: system where
  "ScanManager_init =
     \<lparr>mgr_status = IDLE, current_scan_id = None, cancel_requested = False, pause_event = True,
      progress = \<lparr>p_processed = 0, p_total = 0, p_issues_found = 0, p_editions_updated = 0,
                  p_current_library = None, p_current_item = None\<rparr>,
      broadcasts = [], scans = Map.empty, next_scan_id = 1, scan_events = [], issue_rows = [],
      edition_backups = [], plex_errors = [], plex_edition_writes = [], clock = 0\<rparr>"

definition is_running :: "system \<Rightarrow> bool" where
  "is_running s = (mgr_status s = RUNNING \<or> mgr_status s = PAUSED)"

text \<open>\<open>update(Scan).where(Scan.id == scan_id).values(...)\<close>\<close>

definition update_scan :: "nat \<Rightarrow> (Scan \<Rightarrow> Scan) \<Rightarrow> system \<Rightarrow> system" where
  "update_scan scan_id f s =
     (case scans s scan_id of
        None \<Rightarrow> s
      | Some row \<Rightarrow> s\<lparr>scans := (scans s)(scan_id \<mapsto> f row)\<rparr>)"

definition broadcast :: "string \<Rightarrow> nat option \<Rightarrow> system \<Rightarrow> system" where
  "broadcast event_type scan_id s = s\<lparr>broadcasts := broadcasts s @ [(event_type, scan_id)]\<rparr>"

definition add_scan_event :: "nat \<Rightarrow> string \<Rightarrow> system \<Rightarrow> system" where
  "add_scan_event scan_id event_type s = s\<lparr>scan_events := scan_events s @ [(scan_id, event_type)]\<rparr>"

definition start_scan :: "ScanConfig \<Rightarrow> system \<Rightarrow> error + (nat \<times> system)" where
  "start_scan config s =
     (if is_running s then Inl ScanAlreadyRunningError
      else
        (let scan_id = next_scan_id s;
             scan = \<lparr>scan_type = cfg_scan_type config, status = ''running'', total_items = 0,
                     processed_items = 0, issues_found = 0, editions_updated = 0,
                     current_library = None, checkpoint = None,
                     triggered_by = cfg_triggered_by config,
                     started_at = Some (clock s), paused_at = None, completed_at = None\<rparr>;
             s1 = s\<lparr>scans := (scans s)(scan_id \<mapsto> scan), next_scan_id := Suc scan_id,
                     current_scan_id := Some scan_id, mgr_status := RUNNING,
                     cancel_requested := False, pause_event := True,
                     progress := \<lparr>p_processed = 0, p_total = 0, p_issues_found = 0,
                                  p_editions_updated = 0, p_current_library = None,
                                  p_current_item = None\<rparr>\<rparr>
         in Inr (scan_id, broadcast ''scan_started'' (Some scan_id) (add_scan_event scan_id ''started'' s1))))"

definition save_checkpoint :: "nat \<Rightarrow> int \<Rightarrow> int \<Rightarrow> int \<Rightarrow> string \<Rightarrow> system \<Rightarrow> system" where
  "save_checkpoint scan_id processed found updated lib s =
     update_scan scan_id
       (\<lambda>row. row\<lparr>processed_items := processed, issues_found := found,
                   editions_updated := updated, current_library := Some lib,
                   checkpoint := Some \<lparr>cp_processed = processed, cp_current_library = lib,
                                        cp_timestamp = clock s\<rparr>\<rparr>) s"

definition mark_scan_completed :: "nat \<Rightarrow> int \<Rightarrow> int \<Rightarrow> int \<Rightarrow> system \<Rightarrow> system" where
  "mark_scan_completed scan_id processed found updated s =
     broadcast ''scan_completed'' (Some scan_id)
       ((add_scan_event scan_id ''completed''
          (update_scan scan_id
             (\<lambda>row. row\<lparr>status := ''completed'', processed_items := processed,
                         issues_found := found, editions_updated := updated,
                         completed_at := Some (clock s), checkpoint := None\<rparr>) s))
        \<lparr>mgr_status := COMPLETED\<rparr>)"

definition mark_scan_cancelled :: "nat \<Rightarrow> system \<Rightarrow> system" where
  "mark_scan_cancelled scan_id s =
     broadcast ''scan_cancelled'' (Some scan_id)
       ((add_scan_event scan_id ''cancelled''
          (update_scan scan_id
             (\<lambda>row. row\<lparr>status := ''cancelled'', completed_at := Some (clock s)\<rparr>) s))
        \<lparr>mgr_status := CANCELLED\<rparr>)"

definition mark_scan_failed :: "nat \<Rightarrow> error \<Rightarrow> system \<Rightarrow> system" where
  "mark_scan_failed scan_id e s =
     broadcast ''scan_failed'' (Some scan_id)
       ((add_scan_event scan_id ''failed''
          (update_scan scan_id
             (\<lambda>row. row\<lparr>status := ''failed'', completed_at := Some (clock s)\<rparr>) s))
        \<lparr>mgr_status := FAILED\<rparr>)"

definition pause_scan :: "system \<Rightarrow> bool \<times> system" where
  "pause_scan s =
     (if mgr_status s \<noteq> RUNNING then (False, s)
      else
        (let s1 = s\<lparr>pause_event := False, mgr_status := PAUSED\<rparr>
         in case current_scan_id s1 of
              None \<Rightarrow> (True, broadcast ''scan_paused'' None s1)
            | Some scan_id \<Rightarrow>
                (True, broadcast ''scan_paused'' (Some scan_id)
                   (add_scan_event scan_id ''paused''
                      (update_scan scan_id
                         (\<lambda>row. row\<lparr>status := ''paused'', paused_at := Some (clock s)\<rparr>) s1)))))"

definition resume_scan :: "system \<Rightarrow> bool \<times> system" where
  "resume_scan s =
     (if mgr_status s \<noteq> PAUSED then (False, s)
      else
        (let s1 = s\<lparr>pause_event := True, mgr_status := RUNNING\<rparr>
         in case current_scan_id s1 of
              None \<Rightarrow> (True, broadcast ''scan_resumed'' None s1)
            | Some scan_id \<Rightarrow>
                (True, broadcast ''scan_resumed'' (Some scan_id)
                   (add_scan_event scan_id ''resumed''
                      (update_scan scan_id
                         (\<lambda>row. row\<lparr>status := ''running'', paused_at := None\<rparr>) s1)))))"

definition cancel_scan :: "system \<Rightarrow> bool \<times> system" where
  "cancel_scan s =
     (if \<not> is_running s then (False, s)
      else (True, s\<lparr>cancel_requested := True, pause_event := True\<rparr>))"

text \<open>What the other tasks do while the scan task is suspended at \<open>t\<close>.\<close>

definition deliver :: "world \<Rightarrow> tick \<Rightarrow> system \<Rightarrow> system" where
  "deliver w t s = (if cancel_arrives w t then snd (cancel_scan s) else s)"

text \<open>\<open>PlexService._request\<close> raising: the exception is recorded in the ghost log.\<close>

definition raised :: "error \<Rightarrow> system \<Rightarrow> system" where
  "raised e s = s\<lparr>plex_errors := plex_errors s @ [e]\<rparr>"

section \<open>Edition manager: generate, backup, apply (services/edition\_manager.py)\<close>

text \<open>\<open>_get_plex_service\<close> raises \<open>ValueError\<close> unless URL and token are both set.\<close>

definition plex_configured :: "world \<Rightarrow> bool" where
  "plex_configured w = (plex_url w \<noteq> [] \<and> plex_token w \<noteq> [])"

text \<open>
  \<open>generate_edition\<close>: the request sits in a \<open>try\<close> whose handler logs and returns
  \<open>None\<close>; the module pipeline is the \<open>Inr\<close> answer of \<open>metadata_request\<close>.
\<close>

definition generate_edition ::
  "world \<Rightarrow> string \<Rightarrow> system \<Rightarrow> (error \<times> system) + (string option \<times> system)" where
  "generate_edition w key s =
     (if \<not> plex_configured w then Inl (ValueError, s)
      else
        (case metadata_request w key of
           Inl e \<Rightarrow> Inr (None, raised e s)
         | Inr edition \<Rightarrow> Inr (edition, s)))"

text \<open>\<open>PlexService.get_item_metadata\<close>: any exception is logged and \<open>None\<close> returned.\<close>

definition get_item_metadata :: "world \<Rightarrow> string \<Rightarrow> system \<Rightarrow> PlexItem option \<times> system" where
  "get_item_metadata w key s =
     (case item_metadata_request w key of
        Inl e \<Rightarrow> (None, raised e s)
      | Inr item \<Rightarrow> (item, s))"

text \<open>\<open>PlexService.set_edition\<close>: \<open>True\<close> when the PUT succeeded, \<open>False\<close> on any exception.\<close>

definition set_edition :: "world \<Rightarrow> string \<Rightarrow> string \<Rightarrow> system \<Rightarrow> bool \<times> system" where
  "set_edition w key edition s =
     (case set_edition_request w key edition of
        Inl e \<Rightarrow> (False, raised e s)
      | Inr u \<Rightarrow> (True, s\<lparr>plex_edition_writes := plex_edition_writes s @ [(key, edition)]\<rparr>))"

text \<open>
  \<open>backup_edition\<close>. \<open>scalar_one_or_none()\<close> raises when the query finds more than one
  row, returns the row when there is one, and \<open>None\<close> when there is none.
\<close>

definition backup_edition :: "world \<Rightarrow> string \<Rightarrow> system \<Rightarrow> (error \<times> system) + system" where
  "backup_edition w key s =
     (case filter (\<lambda>b. backup_rating_key b = key) (edition_backups s) of
        [] \<Rightarrow>
          (if \<not> plex_configured w then Inl (ValueError, s)
           else
             (case get_item_metadata w key s of
                (None, s1) \<Rightarrow> Inr s1
              | (Some item, s1) \<Rightarrow>
                  Inr (s1\<lparr>edition_backups := edition_backups s1 @
                        [\<lparr>backup_rating_key = key, backup_title = title item,
                          original_edition = edition_title item\<rparr>]\<rparr>)))
      | [b] \<Rightarrow> Inr s
      | b # b' # bs \<Rightarrow> Inl (MultipleResultsFound, s))"

definition apply_edition ::
  "world \<Rightarrow> string \<Rightarrow> string \<Rightarrow> system \<Rightarrow> (error \<times> system) + (bool \<times> system)" where
  "apply_edition w key edition_string s =
     (if \<not> plex_configured w then Inl (ValueError, s)
      else
        (case backup_edition w key s of
           Inl e \<Rightarrow> Inl e
         | Inr s1 \<Rightarrow> Inr (set_edition w key edition_string s1)))"

text \<open>Whether the backup table holds a row for the item.\<close>

definition has_backup :: "string \<Rightarrow> system \<Rightarrow> bool" where
  "has_backup key s = (\<exists>b \<in> set (edition_backups s). backup_rating_key b = key)"

section \<open>Scan engine: execution (services/scan\_manager.py)\<close>

text \<open>
  The variables of \<open>_execute_scan\<close> that live across the item loop: the system, the
  detector instance of this scan, and the three counters.
\<close>

record loop_state =
  sys :: system
  scanner :: ArtworkScanner
  processed :: int
  found :: int
  updated :: int

definition run_artwork :: "ScanConfig \<Rightarrow> bool" where
  "run_artwork config = (cfg_scan_type config = ''artwork'' \<or> cfg_scan_type config = ''both'')"

definition run_edition :: "ScanConfig \<Rightarrow> bool" where
  "run_edition config = (cfg_scan_type config = ''edition'' \<or> cfg_scan_type config = ''both'')"

text \<open>\<open>_save_issue\<close> for each issue of the item, in order.\<close>

definition save_issues :: "nat \<Rightarrow> ArtworkIssue list \<Rightarrow> system \<Rightarrow> system" where
  "save_issues scan_id new s = s\<lparr>issue_rows := issue_rows s @ map (\<lambda>i. (scan_id, i)) new\<rparr>"

text \<open>The artwork part of the \<open>try\<close> block.\<close>

definition artwork_scan :: "world \<Rightarrow> ScanConfig \<Rightarrow> nat \<Rightarrow> PlexItem \<Rightarrow> loop_state \<Rightarrow> loop_state" where
  "artwork_scan w config scan_id item st =
     (if run_artwork config then
        (case scan_item (image_net w) (scanner st) item of
           (new, scanner') \<Rightarrow>
             st\<lparr>scanner := scanner', sys := save_issues scan_id new (sys st),
                found := found st + int (length new)\<rparr>)
      else st)"

text \<open>
  The edition part of the \<open>try\<close> block. An exception leaves the block (\<open>Inl\<close>) with the
  system as it was when it was raised.
\<close>

definition edition_scan ::
  "world \<Rightarrow> ScanConfig \<Rightarrow> PlexItem \<Rightarrow> loop_state \<Rightarrow> (error \<times> loop_state) + loop_state" where
  "edition_scan w config item st =
     (if run_edition config \<and> cfg_edition_enabled config \<and> item_type item = ''movie'' then
        (case generate_edition w (rating_key item) (sys st) of
           Inl (e, s1) \<Rightarrow> Inl (e, st\<lparr>sys := s1\<rparr>)
         | Inr (None, s1) \<Rightarrow> Inr (st\<lparr>sys := s1\<rparr>)
         | Inr (Some edition, s1) \<Rightarrow>
             (let current_edition = (if truthy (edition_title item) then the (edition_title item) else [])
              in if edition \<noteq> current_edition then
                   (case apply_edition w (rating_key item) edition s1 of
                      Inl (e, s2) \<Rightarrow> Inl (e, st\<lparr>sys := s2\<rparr>)
                    | Inr (ok, s2) \<Rightarrow> Inr (st\<lparr>sys := s2, updated := updated st + 1\<rparr>))
                 else Inr (st\<lparr>sys := s1\<rparr>)))
      else Inr st)"

text \<open>
  The \<open>try\<close> block of one item with its handler \<open>except Exception\<close>, which logs a warning
  and goes on: whatever was raised inside, the loop continues after the block.
\<close>

definition try_scan_item :: "world \<Rightarrow> ScanConfig \<Rightarrow> nat \<Rightarrow> PlexItem \<Rightarrow> loop_state \<Rightarrow> loop_state" where
  "try_scan_item w config scan_id item st =
     (case edition_scan w config item (artwork_scan w config scan_id item st) of
        Inl (e, st') \<Rightarrow> st'
      | Inr st' \<Rightarrow> st')"

text \<open>
  One pass of the item loop's body after the cancel check and the pause gate (the gate
  is open in this model: only \<open>cancel_scan\<close> calls are interleaved, and \<open>cancel_scan\<close>
  opens it). Other tasks run at the suspension points of the \<open>try\<close> block. With
  \<open>checkpoint_interval = 0\<close> the \<open>%\<close> raises outside the \<open>try\<close>.
\<close>

definition process_item ::
  "world \<Rightarrow> ScanConfig \<Rightarrow> nat \<Rightarrow> string \<Rightarrow> string \<Rightarrow> PlexItem \<Rightarrow> loop_state
     \<Rightarrow> (error \<times> system) + loop_state" where
  "process_item w config scan_id lib_id lib_name item st =
     (let s0 = (sys st)\<lparr>progress := (progress (sys st))\<lparr>p_current_item := Some (title item)\<rparr>\<rparr>;
          st1 = try_scan_item w config scan_id item (st\<lparr>sys := s0\<rparr>);
          s1 = deliver w (Processing (nat (processed st))) (sys st1);
          n = processed st + 1;
          s2 = s1\<lparr>progress := (progress s1)\<lparr>p_processed := n, p_issues_found := found st1,
                                              p_editions_updated := updated st1\<rparr>\<rparr>
      in if cfg_checkpoint_interval config = 0 then Inl (ZeroDivisionError, s2)
         else
           (let s3 = (if n mod cfg_checkpoint_interval config = 0
                      then save_checkpoint scan_id n (found st1) (updated st1) lib_id s2 else s2);
                s4 = (if n mod 5 = 0 then broadcast ''scan_progress'' (Some scan_id) s3 else s3)
            in Inr (st1\<lparr>sys := s4, processed := n\<rparr>)))"

text \<open>
  The inner loop \<open>for item in items\<close>. The result \<open>(True, st)\<close> is the \<open>return\<close> after
  \<open>_mark_scan_cancelled\<close>; \<open>(False, st)\<close> is the loop running to its end.
\<close>

fun process_items ::
  "world \<Rightarrow> ScanConfig \<Rightarrow> nat \<Rightarrow> string \<Rightarrow> string \<Rightarrow> PlexItem list \<Rightarrow> loop_state
     \<Rightarrow> (error \<times> system) + (bool \<times> loop_state)" where
  "process_items w config scan_id lib_id lib_name [] st = Inr (False, st)"
| "process_items w config scan_id lib_id lib_name (item # items) st =
     (if cancel_requested (sys st)
      then Inr (True, st\<lparr>sys := mark_scan_cancelled scan_id (sys st)\<rparr>)
      else
        (case process_item w config scan_id lib_id lib_name item st of
           Inl e \<Rightarrow> Inl e
         | Inr st' \<Rightarrow> process_items w config scan_id lib_id lib_name items st'))"

text \<open>
  The outer loop \<open>for lib_id, items in library_items.items()\<close>, whose cancel check is a
  \<open>break\<close>: the code after the loop runs next.
\<close>

fun process_libraries ::
  "world \<Rightarrow> ScanConfig \<Rightarrow> nat \<Rightarrow> (string \<times> PlexItem list) list \<Rightarrow> loop_state
     \<Rightarrow> (error \<times> system) + (bool \<times> loop_state)" where
  "process_libraries w config scan_id [] st = Inr (False, st)"
| "process_libraries w config scan_id ((lib_id, items) # rest) st =
     (if cancel_requested (sys st) then Inr (False, st)
      else
        (let lib_name = (case items of [] \<Rightarrow> ''Unknown'' | i # is \<Rightarrow> library_name i);
             st1 = st\<lparr>sys := (sys st)\<lparr>progress :=
                     (progress (sys st))\<lparr>p_current_library := Some lib_name\<rparr>\<rparr>\<rparr>
         in case process_items w config scan_id lib_id lib_name items st1 of
              Inl e \<Rightarrow> Inl e
            | Inr (True, st2) \<Rightarrow> Inr (True, st2)
            | Inr (False, st2) \<Rightarrow> process_libraries w config scan_id rest st2))"

text \<open>
  The counting loop \<open>for lib_id in library_ids\<close>. \<open>library_items\<close> is a dict: a library
  id that comes again replaces its items and keeps its place.
\<close>

fun enumerate_libraries ::
  "world \<Rightarrow> nat \<Rightarrow> string list \<Rightarrow> (string \<times> PlexItem list) list \<Rightarrow> int \<Rightarrow> system
     \<Rightarrow> (error \<times> system) + ((string \<times> PlexItem list) list \<times> int \<times> system)" where
  "enumerate_libraries w n [] library_items n_total s = Inr (library_items, n_total, s)"
| "enumerate_libraries w n (lib_id # rest) library_items n_total s =
     (if cancel_requested s then Inr (library_items, n_total, s)
      else
        (case get_all_library_items w lib_id of
           Inl e \<Rightarrow> Inl (e, raised e (deliver w (Enumerating n) s))
         | Inr items \<Rightarrow>
             enumerate_libraries w (Suc n) rest (AList.update lib_id items library_items)
               (n_total + int (length items)) (deliver w (Enumerating n) s)))"

text \<open>
  The first phase of \<open>_execute_scan\<close>: the library set (the configured ids, else all
  video libraries of the server) and the items of every library.
\<close>

definition enumerate_phase ::
  "world \<Rightarrow> ScanConfig \<Rightarrow> system
     \<Rightarrow> (error \<times> system) + ((string \<times> PlexItem list) list \<times> int \<times> system)" where
  "enumerate_phase w config s =
     (if cfg_libraries config = [] then
        (case get_libraries w of
           Inl e \<Rightarrow> Inl (e, raised e s)
         | Inr library_ids \<Rightarrow> enumerate_libraries w 0 library_ids [] 0 s)
      else enumerate_libraries w 0 (cfg_libraries config) [] 0 s)"

definition execute_scan :: "world \<Rightarrow> nat \<Rightarrow> ScanConfig \<Rightarrow> system \<Rightarrow> (error \<times> system) + system" where
  "execute_scan w scan_id config s =
     (if \<not> plex_configured w then Inl (ValueError, s)
      else
        (case enumerate_phase w config s of
           Inl e \<Rightarrow> Inl e
         | Inr (library_items, n_total, s1) \<Rightarrow>
             (let s2 = broadcast ''scan_progress'' (Some scan_id)
                         (update_scan scan_id (\<lambda>row. row\<lparr>total_items := n_total\<rparr>)
                            (s1\<lparr>progress := (progress s1)\<lparr>p_total := n_total\<rparr>\<rparr>));
                  st = \<lparr>sys = s2,
                        scanner = ArtworkScanner_init (cfg_check_posters config)
                          (cfg_check_backgrounds config) (cfg_check_logos config)
                          (cfg_check_unmatched config) (cfg_check_placeholders config),
                        processed = 0, found = 0, updated = 0\<rparr>
              in case process_libraries w config scan_id library_items st of
                   Inl e \<Rightarrow> Inl e
                 | Inr (True, st') \<Rightarrow> Inr (sys st')
                 | Inr (False, st') \<Rightarrow>
                     Inr (mark_scan_completed scan_id (processed st') (found st') (updated st')
                            (sys st')))))"

text \<open>
  \<open>run_scan\<close>: an exception of \<open>_execute_scan\<close> marks the scan failed; the \<open>finally\<close> clause
  resets the manager.
\<close>

definition run_scan :: "world \<Rightarrow> nat \<Rightarrow> ScanConfig \<Rightarrow> system \<Rightarrow> system" where
  "run_scan w scan_id config s =
     (let s' = (case execute_scan w scan_id config s of
                  Inl (e, s1) \<Rightarrow> mark_scan_failed scan_id e s1
                | Inr s1 \<Rightarrow> s1)
      in s'\<lparr>mgr_status := IDLE, current_scan_id := None\<rparr>)"

text \<open>The status column of a scan's row.\<close>

definition status_of :: "nat \<Rightarrow> system \<Rightarrow> string option" where
  "status_of scan_id s = map_option status (scans s scan_id)"

text \<open>The checkpoint column of a scan's row (\<open>None\<close> is SQL null).\<close>

definition checkpoint_of :: "nat \<Rightarrow> system \<Rightarrow> checkpoint_json option" where
  "checkpoint_of scan_id s = (case scans s scan_id of None \<Rightarrow> None | Some row \<Rightarrow> checkpoint row)"

subsection \<open>Concrete inputs for the scan engine\<close>

text \<open>
  The configuration the scan router passes (\<open>ScanConfig().model_dump()\<close>): no
  \<open>checkpoint_interval\<close> key, so the engine's default of 100 applies.
\<close>

definition default_config :: ScanConfig where
  "default_config =
     \<lparr>cfg_scan_type = ''both'', cfg_triggered_by = ''manual'', cfg_libraries = [],
      cfg_checkpoint_interval = 100, cfg_edition_enabled = True, cfg_check_posters = True,
      cfg_check_backgrounds = True, cfg_check_logos = True, cfg_check_unmatched = True,
      cfg_check_placeholders = True\<rparr>"

definition movie :: "string \<Rightarrow> string \<Rightarrow> PlexItem" where
  "movie key lib =
     \<lparr>rating_key = key, title = ''Movie '' @ key, year = None, item_type = ''movie'',
      guid = Some ''plex://movie/abc'', thumb = None, art = None, library_name = lib,
      added_at = None, edition_title = None, guids = []\<rparr>"

text \<open>The system right after \<open>start_scan\<close> on a fresh manager: scan 1 is running.\<close>

definition started_system :: system where
  "started_system =
     (case start_scan default_config ScanManager_init of
        Inl e \<Rightarrow> ScanManager_init
      | Inr (scan_id, s) \<Rightarrow> s)"

text \<open>A configured server with no libraries, where every request succeeds.\<close>

definition quiet_world :: world where
  "quiet_world =
     \<lparr>plex_url = ''http://plex:32400'', plex_token = ''token'',
      get_libraries = Inr [],
      get_all_library_items = (\<lambda>lib_id. Inr []),
      image_net = failing_net,
      metadata_request = (\<lambda>key. Inr None),
      item_metadata_request = (\<lambda>key. Inr None),
      set_edition_request = (\<lambda>key edition. Inr ()),
      cancel_arrives = (\<lambda>t. False)\<rparr>"

text \<open>
  Two libraries of one movie each; \<open>cancel_scan\<close> is called while the first movie is
  being processed.
\<close>

definition boundary_world :: world where
  "boundary_world =
     quiet_world\<lparr>get_libraries := Inr [''1'', ''2''],
       get_all_library_items :=
         (\<lambda>lib_id. if lib_id = ''1'' then Inr [movie ''10'' ''Movies'']
                    else if lib_id = ''2'' then Inr [movie ''20'' ''More movies'']
                    else Inr []),
       cancel_arrives := (\<lambda>t. t = Processing 0)\<rparr>"

text \<open>
  One library of 101 movies under the default configuration; \<open>cancel_scan\<close> is called
  while the hundredth movie is being processed.
\<close>

definition long_world :: world where
  "long_world =
     quiet_world\<lparr>get_libraries := Inr [''1''],
       get_all_library_items := (\<lambda>lib_id. Inr (replicate 101 (movie ''10'' ''Movies''))),
       cancel_arrives := (\<lambda>t. t = Processing 99)\<rparr>"

text \<open>
  The state of that scan after \<open>k\<close> items: running, cancelled from the hundredth item on,
  and with the checkpoint of item 100 in the row from then on.
\<close>

definition running_after :: "nat \<Rightarrow> loop_state \<Rightarrow> bool" where
  "running_after k st \<longleftrightarrow>
     processed st = int k \<and> mgr_status (sys st) = RUNNING \<and> clock (sys st) = 0 \<and>
     (cancel_requested (sys st) \<longleftrightarrow> 100 \<le> k) \<and>
     status_of 1 (sys st) = Some ''running'' \<and>
     checkpoint_of 1 (sys st) =
       (if 100 \<le> k then Some \<lparr>cp_processed = 100, cp_current_library = ''1'', cp_timestamp = 0\<rparr>
        else None)"

text \<open>The token is rejected when the server's libraries are listed.\<close>

definition revoked_world :: world where
  "revoked_world = quiet_world\<lparr>get_libraries := Inl PlexAuthenticationError\<rparr>"

text \<open>
  The token is accepted during enumeration and rejected afterwards: the metadata
  request of \<open>generate_edition\<close> for the one movie gets a 401.
\<close>

definition late_401_world :: world where
  "late_401_world =
     quiet_world\<lparr>get_libraries := Inr [''1''],
       get_all_library_items := (\<lambda>lib_id. Inr [movie ''10'' ''Movies'']),
       metadata_request := (\<lambda>key. Inl PlexAuthenticationError)\<rparr>"

text \<open>
  The metadata request of the backup times out; the edition write that follows
  succeeds.
\<close>

definition flaky_world :: world where
  "flaky_world = quiet_world\<lparr>item_metadata_request := (\<lambda>key. Inl PlexConnectionError)\<rparr>"

section \<open>Properties of the artwork defect detector\<close>

lemma issue_type_create_issue: "issue_type (create_issue item t d) = t"
  by (simp add: create_issue_def)

lemma emitted_missing_rules:
  "set (emitted (missing_rules s item)) \<subseteq> {NO_POSTER, NO_BACKGROUND}"
  by (auto simp: emitted_def missing_rules_def issue_type_create_issue)

lemma emitted_poster_rule:
  "set (emitted (fst (poster_rule net item (issues, s))))
     \<subseteq> set (emitted issues) \<union> {PLACEHOLDER_POSTER}"
  by (auto simp: emitted_def poster_rule_def issue_type_create_issue split: prod.splits if_splits)

lemma emitted_background_rule:
  "set (emitted (fst (background_rule net item st)))
     \<subseteq> set (emitted (fst st)) \<union> {PLACEHOLDER_BACKGROUND}"
  by (cases st)
    (auto simp: emitted_def background_rule_def issue_type_create_issue split: prod.splits if_splits)

lemma no_match_not_in_rules:
  "NO_MATCH \<notin> set (emitted (fst (background_rule net item
      (poster_rule net item (missing_rules s item, s)))))"
proof -
  have a: "NO_MATCH \<notin> set (emitted (missing_rules s item))"
    using emitted_missing_rules[of s item] by auto
  have b: "NO_MATCH \<notin> set (emitted (fst (poster_rule net item (missing_rules s item, s))))"
    using emitted_poster_rule[of net item "missing_rules s item" s] a by auto
  show ?thesis
    using emitted_background_rule[of net item "poster_rule net item (missing_rules s item, s)"] b
    by auto
qed

lemma unmatched_item_facts:
  "\<not> is_matched unmatched_item" "\<not> has_poster unmatched_item" "\<not> has_background unmatched_item"
  by (simp_all add: is_matched_def has_poster_def has_background_def truthy_def unmatched_item_def)

lemma poster_item_facts: "has_poster poster_item" "is_matched poster_item"
  by (simp_all add: has_poster_def is_matched_def truthy_def poster_item_def)

lemma default_scanner_flags:
  "check_unmatched default_scanner" "check_placeholders default_scanner"
  "check_posters default_scanner" "check_backgrounds default_scanner"
  by (simp_all add: default_scanner_def ArtworkScanner_init_def)

text \<open>
  Claim C9. \<open>scan_item\<close> emits \<open>no_match\<close> exactly when \<open>check_unmatched\<close> is enabled and
  the item is unmatched, and whenever \<open>no_match\<close> is among the emitted issues the result
  is exactly the singleton \<open>no_match\<close> issue of that item: no \<open>no_poster\<close>,
  \<open>no_background\<close>, \<open>placeholder_poster\<close> or \<open>placeholder_background\<close> comes with it.
\<close>

theorem no_match_short_circuit:
  "(NO_MATCH \<in> set (emitted (fst (scan_item net s item)))
      \<longleftrightarrow> (check_unmatched s \<and> \<not> is_matched item)) \<and>
   (NO_MATCH \<in> set (emitted (fst (scan_item net s item)))
      \<longrightarrow> fst (scan_item net s item) = [create_issue item NO_MATCH []])"
  using no_match_not_in_rules[of net item s]
  by (auto simp: scan_item_def emitted_def issue_type_create_issue)

theorem no_match_short_circuit_witness:
  "NO_MATCH \<in> set (emitted (fst (scan_item failing_net default_scanner unmatched_item))) \<and>
   fst (scan_item failing_net default_scanner unmatched_item)
     = [create_issue unmatched_item NO_MATCH []]"
  using no_match_short_circuit[of failing_net default_scanner unmatched_item]
    unmatched_item_facts(1) default_scanner_flags(1)
  by simp

lemma poster_in_background_rule:
  "PLACEHOLDER_POSTER \<in> set (emitted (fst (background_rule net item st))) \<longleftrightarrow>
   PLACEHOLDER_POSTER \<in> set (emitted (fst st))"
  by (cases st)
    (auto simp: emitted_def background_rule_def issue_type_create_issue split: prod.splits if_splits)

lemma poster_in_poster_rule:
  "check_placeholders s \<Longrightarrow> has_poster item \<Longrightarrow> PLACEHOLDER_POSTER \<notin> set (emitted issues) \<Longrightarrow>
   PLACEHOLDER_POSTER \<in> set (emitted (fst (poster_rule net item (issues, s)))) \<longleftrightarrow>
   fst (check_placeholder_poster net s item)"
  by (auto simp: emitted_def poster_rule_def issue_type_create_issue split: prod.splits if_splits)

lemma check_placeholder_poster_ratio:
  assumes "has_poster item" "get_image_aspect_ratio net s (the (thumb item)) = (Some r, s')"
  shows "fst (check_placeholder_poster net s item) \<longleftrightarrow> (r > 9 / 10 \<or> r < 4 / 10)"
  using assms
  by (auto simp: check_placeholder_poster_def has_poster_def POSTER_ASPECT_RATIO_def
      ASPECT_RATIO_TOLERANCE_def Let_def)

text \<open>
  Claim C6. Take an item with a poster whose placeholder rule runs (\<open>check_placeholders\<close>
  is on and the unmatched short-circuit does not fire: the only way the detector
  determines a poster ratio) and whose aspect-ratio query returns the ratio \<open>r\<close>. Then
  \<open>placeholder_poster\<close> is emitted iff \<open>r > 1.0\<close> or \<open>r > 0.9\<close> or \<open>r < 0.4\<close>, and a ratio
  within \<open>2/3 \<times> (1 \<plusminus> 0.15)\<close> is never flagged.
\<close>

theorem placeholder_poster_thresholds:
  assumes "check_placeholders s" and "has_poster item"
    and "\<not> (check_unmatched s \<and> \<not> is_matched item)"
    and "get_image_aspect_ratio net s (the (thumb item)) = (Some r, s')"
  shows "(PLACEHOLDER_POSTER \<in> set (emitted (fst (scan_item net s item)))
            \<longleftrightarrow> (r > 1 \<or> r > 9 / 10 \<or> r < 4 / 10))
       \<and> ((2 / 3) * (1 - 15 / 100) \<le> r \<and> r \<le> (2 / 3) * (1 + 15 / 100)
            \<longrightarrow> PLACEHOLDER_POSTER \<notin> set (emitted (fst (scan_item net s item))))"
proof -
  have m: "PLACEHOLDER_POSTER \<notin> set (emitted (missing_rules s item))"
    using emitted_missing_rules[of s item] by auto
  have sc: "scan_item net s item =
      background_rule net item (poster_rule net item (missing_rules s item, s))"
    using assms(3) by (auto simp: scan_item_def)
  have "PLACEHOLDER_POSTER \<in> set (emitted (fst (scan_item net s item)))
          \<longleftrightarrow> fst (check_placeholder_poster net s item)"
    unfolding sc poster_in_background_rule
    by (rule poster_in_poster_rule[OF assms(1,2) m])
  then have e: "PLACEHOLDER_POSTER \<in> set (emitted (fst (scan_item net s item)))
          \<longleftrightarrow> (r > 9 / 10 \<or> r < 4 / 10)"
    using check_placeholder_poster_ratio[OF assms(2,4)] by simp
  show ?thesis unfolding e by auto
qed

lemma fresh_fetch:
  "get_image_aspect_ratio (\<lambda>n p. Some (w, Suc h)) default_scanner path =
     (Some (of_nat w / of_nat (Suc h)),
      snd (get_image_aspect_ratio (\<lambda>n p. Some (w, Suc h)) default_scanner path))"
  by (simp add: get_image_aspect_ratio_def default_scanner_def ArtworkScanner_init_def Let_def)

theorem placeholder_poster_thresholds_witness:
  "PLACEHOLDER_POSTER \<in> set (emitted (fst (scan_item landscape_net default_scanner poster_item))) \<and>
   PLACEHOLDER_POSTER \<notin> set (emitted (fst (scan_item portrait_net default_scanner poster_item)))"
proof -
  have n: "\<not> (check_unmatched default_scanner \<and> \<not> is_matched poster_item)"
    using poster_item_facts(2) by simp
  have l: "get_image_aspect_ratio landscape_net default_scanner (the (thumb poster_item)) =
      (Some (of_nat 1920 / of_nat 1080),
       snd (get_image_aspect_ratio landscape_net default_scanner (the (thumb poster_item))))"
    using fresh_fetch[of 1920 1079] by (simp add: landscape_net_def)
  have p: "get_image_aspect_ratio portrait_net default_scanner (the (thumb poster_item)) =
      (Some (of_nat 1000 / of_nat 1500),
       snd (get_image_aspect_ratio portrait_net default_scanner (the (thumb poster_item))))"
    using fresh_fetch[of 1000 1499] by (simp add: portrait_net_def)
  show ?thesis
    using placeholder_poster_thresholds[OF default_scanner_flags(2) poster_item_facts(1) n l]
      placeholder_poster_thresholds[OF default_scanner_flags(2) poster_item_facts(1) n p]
    by simp
qed

lemma memo_inv_init: "memo_inv (ArtworkScanner_init a b c d e)"
  by (simp add: memo_inv_def ArtworkScanner_init_def)

lemma usable_iff: "usable r \<longleftrightarrow> (\<exists>w h. r = Some (w, h) \<and> h \<noteq> 0)"
  by (cases r) auto

lemma memo_inv_fetch:
  assumes "memo_inv s"
  shows "memo_inv (snd (get_image_aspect_ratio net s p))"
proof (cases "aspect_ratio_cache s p")
  case (Some r)
  then show ?thesis using assms by (simp add: get_image_aspect_ratio_def)
next
  case None
  let ?resp = "net (length (http_log s)) p"
  let ?s' = "snd (get_image_aspect_ratio net s p)"
  have log: "http_log ?s' = (p, ?resp) # http_log s"
    using None by (auto simp: get_image_aspect_ratio_def Let_def split: option.splits prod.splits)
  have cache: "aspect_ratio_cache ?s' =
      (if usable ?resp
       then (aspect_ratio_cache s)(p \<mapsto> of_nat (fst (the ?resp)) / of_nat (snd (the ?resp)))
       else aspect_ratio_cache s)"
    using None by (auto simp: get_image_aspect_ratio_def Let_def split: option.splits prod.splits)
  have old: "\<And>q w h. (q, Some (w, h)) \<in> set (http_log s) \<Longrightarrow> h \<noteq> 0 \<Longrightarrow> q \<noteq> p"
    using assms None unfolding memo_inv_def by fastforce
  have 1: "\<forall>q w h. (q, Some (w, h)) \<in> set (http_log ?s') \<and> h \<noteq> 0 \<longrightarrow>
        aspect_ratio_cache ?s' q = Some (of_nat w / of_nat h)"
  proof (intro allI impI)
    fix q w h assume a: "(q, Some (w, h)) \<in> set (http_log ?s') \<and> h \<noteq> 0"
    show "aspect_ratio_cache ?s' q = Some (of_nat w / of_nat h)"
    proof (cases "(q, Some (w, h)) \<in> set (http_log s)")
      case True
      then have "q \<noteq> p" using old a by blast
      moreover have "aspect_ratio_cache s q = Some (of_nat w / of_nat h)"
        using assms True a unfolding memo_inv_def by blast
      ultimately show ?thesis by (simp add: cache)
    next
      case False
      then have "q = p" "?resp = Some (w, h)" using a log by auto
      then show ?thesis using a by (simp add: cache)
    qed
  qed
  have 2: "\<forall>later q r earlier. http_log ?s' = later @ (q, r) # earlier \<and> usable r \<longrightarrow>
        q \<notin> fst ` set later"
  proof (intro allI impI)
    fix later q r earlier
    assume a: "http_log ?s' = later @ (q, r) # earlier \<and> usable r"
    show "q \<notin> fst ` set later"
    proof (cases later)
      case Nil
      then show ?thesis by simp
    next
      case (Cons e later')
      then have e: "e = (p, ?resp)" and l: "http_log s = later' @ (q, r) # earlier"
        using a log by auto
      have "q \<notin> fst ` set later'" using assms l a unfolding memo_inv_def by blast
      moreover have "q \<noteq> p"
      proof -
        obtain w h where "r = Some (w, h)" "h \<noteq> 0" using a usable_iff by blast
        moreover have "(q, r) \<in> set (http_log s)" using l by simp
        ultimately show ?thesis using old by blast
      qed
      ultimately show ?thesis using Cons e by auto
    qed
  qed
  show ?thesis unfolding memo_inv_def using 1 2 by blast
qed

lemma memo_inv_poster: "memo_inv s \<Longrightarrow> memo_inv (snd (check_placeholder_poster net s item))"
  using memo_inv_fetch[of s net "the (thumb item)"]
  by (auto simp: check_placeholder_poster_def Let_def split: prod.splits option.splits)

lemma memo_inv_background:
  "memo_inv s \<Longrightarrow> memo_inv (snd (check_placeholder_background net s item))"
  using memo_inv_fetch[of s net "the (art item)"]
  by (auto simp: check_placeholder_background_def Let_def split: prod.splits option.splits)

lemma memo_inv_poster_rule: "memo_inv (snd st) \<Longrightarrow> memo_inv (snd (poster_rule net item st))"
  using memo_inv_poster[of "snd st" net item]
  by (cases st) (auto simp: poster_rule_def split: prod.splits)

lemma memo_inv_background_rule:
  "memo_inv (snd st) \<Longrightarrow> memo_inv (snd (background_rule net item st))"
  using memo_inv_background[of "snd st" net item]
  by (cases st) (auto simp: background_rule_def split: prod.splits)

lemma memo_inv_scan_item: "memo_inv s \<Longrightarrow> memo_inv (snd (scan_item net s item))"
  by (simp add: scan_item_def memo_inv_poster_rule memo_inv_background_rule)

lemma memo_inv_scan_items: "memo_inv s \<Longrightarrow> memo_inv (scan_items net s items)"
  by (induction items arbitrary: s) (simp_all add: memo_inv_scan_item)

lemma at_most_one_usable:
  assumes "\<forall>later p r earlier. l = later @ (p, r) # earlier \<and> usable r \<longrightarrow> p \<notin> fst ` set later"
  shows "length (filter (\<lambda>e. fst e = p \<and> usable (snd e)) l) \<le> 1"
  using assms
proof (induction l)
  case Nil
  then show ?case by simp
next
  case (Cons e l)
  have ih: "length (filter (\<lambda>e. fst e = p \<and> usable (snd e)) l) \<le> 1"
  proof (rule Cons.IH, intro allI impI)
    fix later q r earlier assume "l = later @ (q, r) # earlier \<and> usable r"
    then have "e # l = (e # later) @ (q, r) # earlier \<and> usable r" by simp
    then have "q \<notin> fst ` set (e # later)" using Cons.prems by blast
    then show "q \<notin> fst ` set later" by simp
  qed
  show ?case
  proof (cases "fst e = p")
    case False
    then show ?thesis using ih by simp
  next
    case True
    have "filter (\<lambda>e. fst e = p \<and> usable (snd e)) l = []"
    proof (rule ccontr)
      assume "filter (\<lambda>e. fst e = p \<and> usable (snd e)) l \<noteq> []"
      then obtain x where x: "x \<in> set l" "fst x = p" "usable (snd x)"
        by (metis (mono_tags, lifting) filter_False)
      then obtain later earlier where "l = later @ x # earlier" by (meson split_list)
      then have "e # l = (e # later) @ (fst x, snd x) # earlier \<and> usable (snd x)"
        using x by auto
      then have "fst x \<notin> fst ` set (e # later)" using Cons.prems by blast
      then show False using True x by simp
    qed
    then show ?thesis by simp
  qed
qed


text \<open>
  Claim C8, as the code has it. On a freshly constructed scanner, after any sequence of
  \<open>scan_item\<close> calls (the same item may occur many times), every image path has at most
  one usable fetch in the HTTP log, no GET for a path is issued after a usable fetch of
  it, and a later aspect-ratio query for such a path is answered from the memo, with the
  ratio of that fetch and without touching the scanner (so without a GET), whatever the
  network would answer. A fetch that failed, or that decoded to height zero, is not
  memoized.
\<close>

theorem memo_no_refetch_after_usable:
  fixes net :: http and cp cb cl cu cph :: bool and items :: "PlexItem list"
  defines "s \<equiv> scan_items net (ArtworkScanner_init cp cb cl cu cph) items"
  shows "length (filter (\<lambda>e. fst e = p \<and> usable (snd e)) (http_log s)) \<le> 1 \<and>
     (\<forall>later r earlier. http_log s = later @ (p, r) # earlier \<and> usable r
        \<longrightarrow> p \<notin> fst ` set later) \<and>
     (\<forall>w h. (p, Some (w, h)) \<in> set (http_log s) \<and> h \<noteq> 0
        \<longrightarrow> get_image_aspect_ratio net' s p = (Some (of_nat w / of_nat h), s))"
proof -
  have inv: "memo_inv s"
    unfolding s_def by (rule memo_inv_scan_items[OF memo_inv_init])
  then have 2: "\<forall>later p r earlier. http_log s = later @ (p, r) # earlier \<and> usable r
        \<longrightarrow> p \<notin> fst ` set later"
    unfolding memo_inv_def by blast
  have 1: "length (filter (\<lambda>e. fst e = p \<and> usable (snd e)) (http_log s)) \<le> 1"
    by (rule at_most_one_usable[OF 2])
  have 3: "\<forall>w h. (p, Some (w, h)) \<in> set (http_log s) \<and> h \<noteq> 0
        \<longrightarrow> get_image_aspect_ratio net' s p = (Some (of_nat w / of_nat h), s)"
    using inv unfolding memo_inv_def by (auto simp: get_image_aspect_ratio_def)
  show ?thesis using 1 2 3 by blast
qed


lemma twice_landscape:
  "http_log (scan_items landscape_net default_scanner [poster_item, poster_item]) =
    [(''/library/metadata/1/thumb'', Some (1920, 1080))]"
  by (simp add: scan_item_def landscape_net_def default_scanner_def ArtworkScanner_init_def poster_item_def
     is_matched_def has_poster_def has_background_def truthy_def missing_rules_def poster_rule_def background_rule_def
     check_placeholder_poster_def get_image_aspect_ratio_def Let_def POSTER_ASPECT_RATIO_def ASPECT_RATIO_TOLERANCE_def)

theorem memo_no_refetch_after_usable_witness:
  "length (filter (\<lambda>e. fst e = ''/library/metadata/1/thumb'' \<and> usable (snd e))
      (http_log (scan_items landscape_net default_scanner [poster_item, poster_item]))) \<le> 1 \<and>
   http_log (scan_items landscape_net default_scanner [poster_item, poster_item]) =
     [(''/library/metadata/1/thumb'', Some (1920, 1080))]"
  using memo_no_refetch_after_usable[of "''/library/metadata/1/thumb''" landscape_net True True True True True
     "[poster_item, poster_item]" landscape_net] twice_landscape
  by (simp add: default_scanner_def)

text \<open>
  Claim C8 as stated fails: when the image request fails nothing is memoized, and
  scanning the same item twice issues the GET for its poster twice.
\<close>

theorem fetch_at_most_once_counterexample:
  "\<not> length (fetches_of ''/library/metadata/1/thumb''
        (scan_items failing_net default_scanner [poster_item, poster_item])) \<le> 1"
  by (simp add: fetches_of_def scan_item_def failing_net_def default_scanner_def ArtworkScanner_init_def poster_item_def
     is_matched_def has_poster_def has_background_def truthy_def missing_rules_def poster_rule_def background_rule_def
     check_placeholder_poster_def get_image_aspect_ratio_def Let_def)

section \<open>Properties of the TMDB parser\<close>









section \<open>Properties of the provider aggregator\<close>

lemma fold_priority_absent:
  "n \<notin> set xs \<Longrightarrow> fold (\<lambda>(i, name) m. m(name \<mapsto> i)) (enumerate k xs) m n = m n"
  by (induction xs arbitrary: k m) auto

lemma fold_priority_present:
  "n \<in> set xs \<Longrightarrow>
     \<exists>i. fold (\<lambda>(i, name) m. m(name \<mapsto> i)) (enumerate k xs) m n = Some i \<and> k \<le> i \<and> i < k + length xs"
proof (induction xs arbitrary: k m)
  case Nil
  then show ?case by simp
next
  case (Cons x xs)
  show ?case
  proof (cases "n \<in> set xs")
    case True
    from Cons.IH[OF True, of "Suc k" "m(x \<mapsto> k)"] show ?thesis by auto
  next
    case False
    then have nx: "n = x" using Cons.prems by simp
    have "fold (\<lambda>(i, name) m. m(name \<mapsto> i)) (enumerate k (x # xs)) m n =
        fold (\<lambda>(i, name) m. m(name \<mapsto> i)) (enumerate (Suc k) xs) (m(x \<mapsto> k)) n"
      by simp
    also have "\<dots> = (m(x \<mapsto> k)) n"
      by (rule fold_priority_absent[OF False])
    also have "\<dots> = Some k" using nx by simp
    finally have e: "fold (\<lambda>(i, name) m. m(name \<mapsto> i)) (enumerate k (x # xs)) m n = Some k" .
    show ?thesis by (rule exI[of _ k]) (simp only: e, simp)
  qed
qed

lemma priority_map_absent: "n \<notin> set pl \<Longrightarrow> priority_map pl n = None"
  by (simp add: priority_map_def fold_priority_absent)

lemma priority_map_present: "n \<in> set pl \<Longrightarrow> \<exists>i. priority_map pl n = Some i \<and> i < length pl"
  using fold_priority_present[of n pl 0 Map.empty] by (auto simp: priority_map_def)

lemma priority_map_last: "priority_map (xs @ [n]) n = Some (length xs)"
  by (simp add: priority_map_def enumerate_append_eq)

lemma key_listed:
  "Provider_value (source r) \<in> set pl \<Longrightarrow> fst (artwork_sort_key (priority_map pl) r) < int (length pl)"
  using priority_map_present[of "Provider_value (source r)" pl]
  by (auto simp: artwork_sort_key_def)

lemma key_unlisted:
  "Provider_value (source r) \<notin> set pl \<Longrightarrow> fst (artwork_sort_key (priority_map pl) r) = 999"
  by (simp add: artwork_sort_key_def priority_map_absent)

lemma sorted_listed_first:
  fixes f :: "'a \<Rightarrow> int \<times> int"
  assumes "sorted (map f res)" "i < length res" "j < length res"
    and "fst (f (res ! i)) < fst (f (res ! j))"
  shows "i < j"
proof (rule ccontr)
  assume "\<not> i < j"
  then have "j \<le> i" by simp
  then have "map f res ! j \<le> map f res ! i"
    using assms(1,2) by (simp add: sorted_iff_nth_mono)
  then have "f (res ! j) \<le> f (res ! i)" using assms(2,3) by simp
  then have "fst (f (res ! j)) \<le> fst (f (res ! i))"
    by (cases "f (res ! j)"; cases "f (res ! i)") (auto simp: less_eq_prod_def)
  then show False using assms(4) by simp
qed

text \<open>
  Claim C5, as the code has it. The result of \<open>get_artwork\<close> is a function of the priority
  list and the providers' answers; it is sorted by the key (priority index of the source,
  negated score); suggestions with equal keys keep the order in which the providers'
  answers were concatenated; and when the priority list has at most 999 entries, every
  suggestion of a source absent from it (key index 999) comes after every suggestion of
  a listed source.
\<close>

theorem get_artwork_sorted:
  fixes priority_list_str :: "string list" and providers :: "provider_entry list"
  defines "res \<equiv> get_artwork priority_list_str providers"
    and "key \<equiv> artwork_sort_key (priority_map priority_list_str)"
  shows "sorted (map key res) \<and>
     (\<forall>k. filter (\<lambda>r. key r = k) res =
          filter (\<lambda>r. key r = k) (all_results_of (map outcome (filter is_configured providers)))) \<and>
     (length priority_list_str \<le> 999 \<longrightarrow>
        (\<forall>i j. i < length res \<and> j < length res
              \<and> Provider_value (source (res ! i)) \<in> set priority_list_str
              \<and> Provider_value (source (res ! j)) \<notin> set priority_list_str
           \<longrightarrow> i < j))"
proof -
  have 1: "sorted (map key res)"
    unfolding res_def key_def get_artwork_def Let_def by simp
  have 2: "\<forall>k. filter (\<lambda>r. key r = k) res =
          filter (\<lambda>r. key r = k) (all_results_of (map outcome (filter is_configured providers)))"
    unfolding res_def key_def get_artwork_def Let_def by (simp add: sort_key_stable)
  have 3: "length priority_list_str \<le> 999 \<longrightarrow>
        (\<forall>i j. i < length res \<and> j < length res
              \<and> Provider_value (source (res ! i)) \<in> set priority_list_str
              \<and> Provider_value (source (res ! j)) \<notin> set priority_list_str
           \<longrightarrow> i < j)"
  proof (intro impI allI)
    fix i j
    assume len: "length priority_list_str \<le> 999"
      and a: "i < length res \<and> j < length res
              \<and> Provider_value (source (res ! i)) \<in> set priority_list_str
              \<and> Provider_value (source (res ! j)) \<notin> set priority_list_str"
    have "fst (key (res ! i)) < 999"
      using key_listed[of "res ! i" priority_list_str] a len unfolding key_def by simp
    moreover have "fst (key (res ! j)) = 999"
      using key_unlisted[of "res ! j" priority_list_str] a unfolding key_def by simp
    ultimately show "i < j"
      using sorted_listed_first[OF 1, of i j] a by simp
  qed
  show ?thesis using 1 2 3 by blast
qed

lemma key_short_tmdb: "artwork_sort_key (priority_map [''tmdb'']) (mk_result TMDB 1) = (0, -1)"
  using priority_map_last[of "[]" "''tmdb''"] by (simp add: artwork_sort_key_def mk_result_def)

lemma key_short_mediux: "artwork_sort_key (priority_map [''tmdb'']) (mk_result MEDIUX 5) = (999, -5)"
  using priority_map_absent[of "''mediux''" "[''tmdb'']"] by (simp add: artwork_sort_key_def mk_result_def)

lemma get_artwork_short:
  "get_artwork [''tmdb''] two_providers = [mk_result TMDB 1, mk_result MEDIUX 5]"
  by (simp add: get_artwork_def two_providers_def key_short_tmdb key_short_mediux less_eq_prod_def)

theorem get_artwork_sorted_witness:
  "length [''tmdb''] \<le> 999 \<and>
   get_artwork [''tmdb''] two_providers = [mk_result TMDB 1, mk_result MEDIUX 5] \<and>
   sorted (map (artwork_sort_key (priority_map [''tmdb''])) (get_artwork [''tmdb''] two_providers))"
  using get_artwork_sorted[of "[''tmdb'']" two_providers] get_artwork_short
  by simp

lemma key_long_tmdb: "artwork_sort_key (priority_map long_priority) (mk_result TMDB 1) = (1000, -1)"
  using priority_map_last[of "replicate 1000 ''fanart''" "''tmdb''"]
  by (simp add: artwork_sort_key_def mk_result_def long_priority_def)

lemma key_long_mediux: "artwork_sort_key (priority_map long_priority) (mk_result MEDIUX 5) = (999, -5)"
  using priority_map_absent[of "''mediux''" long_priority]
  by (simp add: artwork_sort_key_def mk_result_def long_priority_def)

lemma get_artwork_long:
  "get_artwork long_priority two_providers = [mk_result MEDIUX 5, mk_result TMDB 1]"
  by (simp add: get_artwork_def two_providers_def key_long_tmdb key_long_mediux less_eq_prod_def)

text \<open>
  Claim C5 as stated fails for a priority list of more than 999 entries: with
  \<open>tmdb\<close> listed at index 1000 and \<open>mediux\<close> not listed (key index 999), the suggestion of
  the unlisted source is returned before the suggestion of the listed one.
\<close>

theorem unlisted_sorts_after_counterexample:
  "Provider_value (source (get_artwork long_priority two_providers ! 0)) \<notin> set long_priority \<and>
   Provider_value (source (get_artwork long_priority two_providers ! 1)) \<in> set long_priority"
  unfolding get_artwork_long by (simp add: mk_result_def long_priority_def)

section \<open>Properties of the resolution module\<close>

lemma get_main_media_single: "get_main_media [m] = Some m"
  by (simp add: get_main_media_def)

text \<open>
  Claim C10. Let \<open>media\<close> be the item's main media entry. If it has no non-empty
  \<open>videoResolution\<close>, \<open>extract\<close> returns \<open>None\<close> whatever \<open>width\<close> and \<open>height\<close> are. If it
  has one and \<open>width\<close> and \<open>height\<close> are both non-zero, the result is the label of the
  first ladder entry, in the order 8K, 4K, 2K, 1080p, 720p, 576p, 480p, with
  \<open>width \<ge> 0.85 W\<close> or \<open>height \<ge> 0.85 H\<close>, and \<open>SD\<close> when no entry qualifies.
\<close>

theorem resolution_needs_videoResolution:
  assumes "get_main_media item_metadata = Some media"
  shows "(\<not> truthy (videoResolution media) \<longrightarrow> resolution_extract item_metadata = None) \<and>
     (truthy (videoResolution media) \<and> width media = Some w \<and> height media = Some h
        \<and> w \<noteq> 0 \<and> h \<noteq> 0 \<longrightarrow>
      resolution_extract item_metadata = Some
        (if (of_int w :: rat) \<ge> 7680 * (85 / 100) \<or> (of_int h :: rat) \<ge> 4320 * (85 / 100) then ''8K''
         else if (of_int w :: rat) \<ge> 3840 * (85 / 100) \<or> (of_int h :: rat) \<ge> 2160 * (85 / 100) then ''4K''
         else if (of_int w :: rat) \<ge> 2560 * (85 / 100) \<or> (of_int h :: rat) \<ge> 1440 * (85 / 100) then ''2K''
         else if (of_int w :: rat) \<ge> 1920 * (85 / 100) \<or> (of_int h :: rat) \<ge> 1080 * (85 / 100) then ''1080p''
         else if (of_int w :: rat) \<ge> 1280 * (85 / 100) \<or> (of_int h :: rat) \<ge> 720 * (85 / 100) then ''720p''
         else if (of_int w :: rat) \<ge> 720 * (85 / 100) \<or> (of_int h :: rat) \<ge> 576 * (85 / 100) then ''576p''
         else if (of_int w :: rat) \<ge> 720 * (85 / 100) \<or> (of_int h :: rat) \<ge> 480 * (85 / 100) then ''480p''
         else ''SD''))"
  using assms
  by (simp add: resolution_extract_def RESOLUTION_MAP_def int_or_0_def Let_def)

theorem resolution_needs_videoResolution_witness:
  "resolution_extract [uhd_no_label] = None \<and> resolution_extract [hd_labelled] = Some ''1080p''"
proof -
  have a: "get_main_media [uhd_no_label] = Some uhd_no_label"
    and b: "get_main_media [hd_labelled] = Some hd_labelled"
    by (rule get_main_media_single)+
  show ?thesis
    using resolution_needs_videoResolution[OF a, of 3840 2160]
      resolution_needs_videoResolution[OF b, of 1920 1080]
    by (simp add: uhd_no_label_def hd_labelled_def truthy_def)
qed

section \<open>Properties of the scan engine and the edition manager\<close>

lemmas engine_defs = run_scan_def execute_scan_def enumerate_phase_def plex_configured_def
  process_item_def try_scan_item_def artwork_scan_def edition_scan_def generate_edition_def
  apply_edition_def backup_edition_def get_item_metadata_def set_edition_def raised_def
  deliver_def cancel_scan_def is_running_def save_checkpoint_def mark_scan_completed_def
  mark_scan_cancelled_def mark_scan_failed_def update_scan_def broadcast_def add_scan_event_def
  save_issues_def run_artwork_def run_edition_def start_scan_def ScanManager_init_def
  status_of_def checkpoint_of_def has_backup_def Let_def

lemmas detector_defs = scan_item_def missing_rules_def poster_rule_def background_rule_def
  check_placeholder_poster_def check_placeholder_background_def get_image_aspect_ratio_def
  is_matched_def has_poster_def has_background_def truthy_def ArtworkScanner_init_def
  create_issue_def ext_id_entry_def get_external_id_def cache_get0_def

lemmas scenario_defs = started_system_def default_config_def movie_def
  quiet_world_def boundary_world_def revoked_world_def late_401_world_def
  flaky_world_def failing_net_def

lemma started: "start_scan default_config ScanManager_init = Inr (1, started_system)"
  by (simp add: started_system_def start_scan_def ScanManager_init_def is_running_def Let_def)

subsection \<open>Checkpoint on terminal transitions\<close>

lemma checkpoint_of_mark_scan_completed:
  "checkpoint_of scan_id (mark_scan_completed scan_id p f u s) = None"
  by (simp add: checkpoint_of_def mark_scan_completed_def update_scan_def broadcast_def
      add_scan_event_def split: option.splits)

lemma checkpoint_of_mark_scan_cancelled:
  "checkpoint_of scan_id (mark_scan_cancelled scan_id s) = checkpoint_of scan_id s"
  by (simp add: checkpoint_of_def mark_scan_cancelled_def update_scan_def broadcast_def
      add_scan_event_def split: option.splits)

lemma checkpoint_of_mark_scan_failed:
  "checkpoint_of scan_id (mark_scan_failed scan_id e s) = checkpoint_of scan_id s"
  by (simp add: checkpoint_of_def mark_scan_failed_def update_scan_def broadcast_def
      add_scan_event_def split: option.splits)

lemma long_step:
  assumes "running_after k st" and "k < 100"
  shows "\<exists>st'. process_item long_world default_config 1 ''1'' ''Movies'' (movie ''10'' ''Movies'') st
            = Inr st' \<and> running_after (Suc k) st'"
proof -
  obtain row where row: "scans (sys st) 1 = Some row" "status row = ''running''"
    using assms(1) by (auto simp: running_after_def status_of_def)
  have facts: "processed st = int k" "mgr_status (sys st) = RUNNING" "clock (sys st) = 0"
    "\<not> cancel_requested (sys st)" "checkpoint row = None"
    using assms row by (auto simp: running_after_def checkpoint_of_def)
  have m: "(int k + 1) mod 100 = 0 \<longleftrightarrow> k = 99"
    using assms(2) by presburger
  show ?thesis
    using row facts m assms(2)
    by (simp add: running_after_def engine_defs detector_defs long_world_def quiet_world_def
        default_config_def movie_def failing_net_def)
qed

lemma long_loop:
  assumes "running_after k st" and "k + n = 100"
  shows "\<exists>st'. process_items long_world default_config 1 ''1'' ''Movies''
              (replicate n (movie ''10'' ''Movies'') @ [movie ''10'' ''Movies'']) st
            = Inr (True, st'\<lparr>sys := mark_scan_cancelled 1 (sys st')\<rparr>) \<and> running_after 100 st'"
  using assms
proof (induction n arbitrary: k st)
  case 0
  then have "cancel_requested (sys st)" by (simp add: running_after_def)
  then show ?case using 0 by auto
next
  case (Suc n)
  then have k: "k < 100" by simp
  then have nc: "\<not> cancel_requested (sys st)" using Suc.prems(1) by (simp add: running_after_def)
  obtain st1 where st1:
    "process_item long_world default_config 1 ''1'' ''Movies'' (movie ''10'' ''Movies'') st = Inr st1"
    "running_after (Suc k) st1"
    using long_step[OF Suc.prems(1) k] by blast
  have "Suc k + n = 100" using Suc.prems(2) by simp
  from Suc.IH[OF st1(2) this] obtain st' where
    "process_items long_world default_config 1 ''1'' ''Movies''
        (replicate n (movie ''10'' ''Movies'') @ [movie ''10'' ''Movies'']) st1
      = Inr (True, st'\<lparr>sys := mark_scan_cancelled 1 (sys st')\<rparr>)" "running_after 100 st'"
    by blast
  then show ?case using nc st1(1) by auto
qed

lemma replicate_101: "replicate 101 x = replicate 100 x @ [x]"
proof -
  have "replicate 101 x = replicate (Suc 100) x" by simp
  also have "\<dots> = replicate 100 x @ [x]" by (simp only: replicate_Suc replicate_append_same)
  finally show ?thesis .
qed

lemma replicate_101_Cons: "replicate 101 x = x # replicate 100 x"
proof -
  have "replicate 101 x = replicate (Suc 100) x" by simp
  then show ?thesis by (simp only: replicate_Suc)
qed

lemma long_run:
  "status_of 1 (run_scan long_world 1 default_config started_system) = Some ''cancelled'' \<and>
   checkpoint_of 1 (run_scan long_world 1 default_config started_system) =
     Some \<lparr>cp_processed = 100, cp_current_library = ''1'', cp_timestamp = 0\<rparr>"
proof -
  let ?m = "movie ''10'' ''Movies''"
  let ?s2 = "broadcast ''scan_progress'' (Some 1)
      (update_scan 1 (\<lambda>row. row\<lparr>total_items := 101\<rparr>)
         (started_system\<lparr>progress := (progress started_system)\<lparr>p_total := 101\<rparr>\<rparr>))"
  let ?st0 = "\<lparr>sys = ?s2, scanner = ArtworkScanner_init True True True True True,
      processed = 0, found = 0, updated = 0\<rparr>"
  let ?st1 = "?st0\<lparr>sys := (sys ?st0)\<lparr>progress :=
      (progress (sys ?st0))\<lparr>p_current_library := Some ''Movies''\<rparr>\<rparr>\<rparr>"
  have enum: "enumerate_phase long_world default_config started_system =
      Inr ([(''1'', replicate 101 ?m)], 101, started_system)"
    by (simp add: enumerate_phase_def long_world_def quiet_world_def default_config_def
        deliver_def started_system_def start_scan_def ScanManager_init_def is_running_def
        broadcast_def add_scan_event_def Let_def)
  have r0: "running_after 0 ?st1"
    by (simp add: running_after_def engine_defs scenario_defs)
  obtain st' where loop:
    "process_items long_world default_config 1 ''1'' ''Movies'' (replicate 100 ?m @ [?m]) ?st1
       = Inr (True, st'\<lparr>sys := mark_scan_cancelled 1 (sys st')\<rparr>)"
    and r100: "running_after 100 st'"
    using long_loop[OF r0, of 100] by auto
  have nc: "\<not> cancel_requested ?s2"
    by (simp add: engine_defs scenario_defs)
  have name: "(case replicate 101 ?m of [] \<Rightarrow> ''Unknown'' | i # is \<Rightarrow> library_name i) = ''Movies''"
    by (simp only: replicate_101_Cons list.case) (simp add: movie_def)
  have libs: "process_libraries long_world default_config 1 [(''1'', replicate 101 ?m)] ?st0
      = Inr (True, st'\<lparr>sys := mark_scan_cancelled 1 (sys st')\<rparr>)"
    using nc loop by (simp add: name Let_def) (simp add: replicate_101)
  have conf: "plex_configured long_world"
    by (simp add: plex_configured_def long_world_def quiet_world_def)
  have cfg: "ArtworkScanner_init (cfg_check_posters default_config)
      (cfg_check_backgrounds default_config) (cfg_check_logos default_config)
      (cfg_check_unmatched default_config) (cfg_check_placeholders default_config)
      = ArtworkScanner_init True True True True True"
    by (simp add: default_config_def)
  have run: "run_scan long_world 1 default_config started_system =
      (mark_scan_cancelled 1 (sys st'))\<lparr>mgr_status := IDLE, current_scan_id := None\<rparr>"
    using conf enum libs by (simp add: run_scan_def execute_scan_def cfg Let_def)
  have a: "status_of 1 (run_scan long_world 1 default_config started_system) = Some ''cancelled''"
    unfolding run using r100
    by (auto simp: running_after_def status_of_def mark_scan_cancelled_def update_scan_def
        broadcast_def add_scan_event_def)
  have "checkpoint_of 1 (run_scan long_world 1 default_config started_system) =
      checkpoint_of 1 (mark_scan_cancelled 1 (sys st'))"
    unfolding run by (simp add: checkpoint_of_def)
  then have b: "checkpoint_of 1 (run_scan long_world 1 default_config started_system) =
     Some \<lparr>cp_processed = 100, cp_current_library = ''1'', cp_timestamp = 0\<rparr>"
    using r100 by (simp add: checkpoint_of_mark_scan_cancelled running_after_def)
  show ?thesis using a b by blast
qed

text \<open>
  Claim C1 fails on the code for two of the three terminal transitions. A scan under the
  default configuration over a library of 101 items, cancelled while the hundredth item
  is processed, saves its checkpoint at 100 items and ends with \<open>status = cancelled\<close> and
  that checkpoint still in its row. \<open>_mark_scan_failed\<close> likewise leaves the checkpoint of
  a row as it was. Only \<open>_mark_scan_completed\<close> nulls it.
\<close>

theorem cancelled_scan_keeps_checkpoint:
  "status_of 1 (run_scan long_world 1 default_config started_system) = Some ''cancelled'' \<and>
   checkpoint_of 1 (run_scan long_world 1 default_config started_system) =
     Some \<lparr>cp_processed = 100, cp_current_library = ''1'', cp_timestamp = 0\<rparr> \<and>
   status_of 1 (mark_scan_failed 1 PlexConnectionError
       (save_checkpoint 1 100 0 0 ''1'' started_system)) = Some ''failed'' \<and>
   checkpoint_of 1 (mark_scan_failed 1 PlexConnectionError
       (save_checkpoint 1 100 0 0 ''1'' started_system)) =
     Some \<lparr>cp_processed = 100, cp_current_library = ''1'', cp_timestamp = 0\<rparr>"
proof -
  have f: "status_of 1 (mark_scan_failed 1 PlexConnectionError
       (save_checkpoint 1 100 0 0 ''1'' started_system)) = Some ''failed'' \<and>
     checkpoint_of 1 (mark_scan_failed 1 PlexConnectionError
       (save_checkpoint 1 100 0 0 ''1'' started_system)) =
     Some \<lparr>cp_processed = 100, cp_current_library = ''1'', cp_timestamp = 0\<rparr>"
    by (simp add: engine_defs scenario_defs)
  show ?thesis using long_run f by blast
qed

subsection \<open>Cancellation\<close>

lemma cancel_seen_by_item_loop:
  "cancel_requested (sys st) \<Longrightarrow>
   process_items w config scan_id lib_id lib_name (item # items) st =
     Inr (True, st\<lparr>sys := mark_scan_cancelled scan_id (sys st)\<rparr>)"
  by simp

lemma cancel_seen_by_library_loop:
  "cancel_requested (sys st) \<Longrightarrow>
   process_libraries w config scan_id (lib # rest) st = Inr (False, st)"
  by (cases lib) simp

text \<open>
  Claim C4 fails on the code when the cancellation is first seen by the library loop.
  Two libraries of one item each, \<open>cancel_scan\<close> accepted while the first item is being
  processed: the first item is finished, the second is not processed, and the scan is
  finalized as \<open>completed\<close> with a \<open>scan_completed\<close> event; no \<open>scan_cancelled\<close> event is
  broadcast and no \<open>cancelled\<close> event row is written.
\<close>

theorem cancel_between_libraries_completes:
  "cancel_requested (run_scan boundary_world 1 default_config started_system) \<and>
   status_of 1 (run_scan boundary_world 1 default_config started_system) = Some ''completed'' \<and>
   map_option processed_items (scans (run_scan boundary_world 1 default_config started_system) 1)
     = Some 1 \<and>
   map_option total_items (scans (run_scan boundary_world 1 default_config started_system) 1)
     = Some 2 \<and>
   broadcasts (run_scan boundary_world 1 default_config started_system) =
     [(''scan_started'', Some 1), (''scan_progress'', Some 1), (''scan_completed'', Some 1)] \<and>
   scan_events (run_scan boundary_world 1 default_config started_system) =
     [(1, ''started''), (1, ''completed'')]"
  by (simp add: engine_defs detector_defs scenario_defs)

subsection \<open>Authentication errors\<close>










subsection \<open>Edition backup before apply\<close>

lemma backup_when_metadata_available:
  assumes "item_metadata_request w key = Inr (Some item)"
    and "apply_edition w key edition s = Inr (ok, s')"
  shows "has_backup key s'"
  using assms
  by (auto simp: apply_edition_def backup_edition_def get_item_metadata_def set_edition_def
      has_backup_def raised_def filter_empty_conv
      split: if_splits sum.splits list.splits prod.splits option.splits
      dest: filter_eq_ConsD)

text \<open>
  Claim C2 fails on the code when the backup cannot read the item: the metadata request
  of \<open>backup_edition\<close> times out, \<open>backup_edition\<close> returns without a row, and
  \<open>apply_edition\<close> goes on to write the edition, which the server accepts. No Edition
  Backup row for the item exists at the write or after it.
\<close>

theorem apply_edition_without_backup:
  "apply_edition flaky_world ''10'' ''4K'' started_system =
     Inr (True, (raised PlexConnectionError started_system)
                  \<lparr>plex_edition_writes := [(''10'', ''4K'')]\<rparr>) \<and>
   \<not> has_backup ''10'' (raised PlexConnectionError started_system) \<and>
   \<not> has_backup ''10'' ((raised PlexConnectionError started_system)
                  \<lparr>plex_edition_writes := [(''10'', ''4K'')]\<rparr>)"
  by (simp add: engine_defs scenario_defs)

end
